theory Spec2Isabelle
  imports Main "HOL-Library.Sublist" "HOL-Library.Monad_Syntax"
begin

section \<open>Strings of the Go standard library\<close>

text \<open>
  A Go string is a sequence of bytes; \<^typ>\<open>string\<close> is a list of 8-bit characters, so
  a string of the model is the byte sequence of the Go string and \<^const>\<open>length\<close> is
  Go's \<^verbatim>\<open>len\<close>.
\<close>

type_synonym bytes = string

text \<open>
  \<^verbatim>\<open>unicode.IsSpace\<close> holds for the code points U+0009..U+000D, U+0020, U+0085, U+00A0,
  U+1680, U+2000..U+200A, U+2028, U+2029, U+202F, U+205F and U+3000. The list holds their
  UTF-8 encodings; a byte sequence that is not one of them decodes to another rune (or to
  the error rune), which is not a space.
\<close>

definition unicode_spaces :: "string list" where
  "unicode_spaces =
    [[CHR 0x09], [CHR 0x0A], [CHR 0x0B], [CHR 0x0C], [CHR 0x0D], [CHR 0x20],
     [CHR 0xC2, CHR 0x85], [CHR 0xC2, CHR 0xA0],
     [CHR 0xE1, CHR 0x9A, CHR 0x80],
     [CHR 0xE2, CHR 0x80, CHR 0x80], [CHR 0xE2, CHR 0x80, CHR 0x81],
     [CHR 0xE2, CHR 0x80, CHR 0x82], [CHR 0xE2, CHR 0x80, CHR 0x83],
     [CHR 0xE2, CHR 0x80, CHR 0x84], [CHR 0xE2, CHR 0x80, CHR 0x85],
     [CHR 0xE2, CHR 0x80, CHR 0x86], [CHR 0xE2, CHR 0x80, CHR 0x87],
     [CHR 0xE2, CHR 0x80, CHR 0x88], [CHR 0xE2, CHR 0x80, CHR 0x89],
     [CHR 0xE2, CHR 0x80, CHR 0x8A],
     [CHR 0xE2, CHR 0x80, CHR 0xA8], [CHR 0xE2, CHR 0x80, CHR 0xA9],
     [CHR 0xE2, CHR 0x80, CHR 0xAF],
     [CHR 0xE2, CHR 0x81, CHR 0x9F],
     [CHR 0xE3, CHR 0x80, CHR 0x80]]"

text \<open>The space rune a string starts with, and the one it ends with, if any.\<close>

definition leading_space :: "string \<Rightarrow> string option" where
  "leading_space s = find (\<lambda>w. prefix w s) unicode_spaces"

definition trailing_space :: "string \<Rightarrow> string option" where
  "trailing_space s = find (\<lambda>w. suffix w s) unicode_spaces"

text \<open>\<^verbatim>\<open>strings.TrimLeftFunc(s, unicode.IsSpace)\<close>: drop space runes from the front.\<close>

function TrimLeftSpace :: "string \<Rightarrow> string" where
  "TrimLeftSpace s =
     (case leading_space s of
        None \<Rightarrow> s
      | Some w \<Rightarrow> TrimLeftSpace (drop (length w) s))"
  by pat_completeness auto
termination
proof (relation "measure length")
  show "wf (measure length)" by simp
next
  fix s w
  assume "leading_space s = Some w"
  then have m: "w \<in> set unicode_spaces" and p: "prefix w s"
    by (auto simp: leading_space_def find_Some_iff)
  from m have w: "w \<noteq> []"
    by (auto simp: unicode_spaces_def)
  from p have "length w \<le> length s" by (rule prefix_length_le)
  with w show "(drop (length w) s, s) \<in> measure length"
    by (cases w) auto
qed

text \<open>\<^verbatim>\<open>strings.TrimRightFunc(s, unicode.IsSpace)\<close>: drop space runes from the end.\<close>

function TrimRightSpace :: "string \<Rightarrow> string" where
  "TrimRightSpace s =
     (case trailing_space s of
        None \<Rightarrow> s
      | Some w \<Rightarrow> TrimRightSpace (take (length s - length w) s))"
  by pat_completeness auto
termination
proof (relation "measure length")
  show "wf (measure length)" by simp
next
  fix s w
  assume "trailing_space s = Some w"
  then have m: "w \<in> set unicode_spaces" and p: "suffix w s"
    by (auto simp: trailing_space_def find_Some_iff)
  from m have w: "w \<noteq> []"
    by (auto simp: unicode_spaces_def)
  from p have "length w \<le> length s" by (rule suffix_length_le)
  with w show "(take (length s - length w) s, s) \<in> measure length"
    by (cases w) auto
qed

declare TrimLeftSpace.simps [simp del]
declare TrimRightSpace.simps [simp del]

text \<open>
  \<^verbatim>\<open>strings.TrimSpace\<close>: the string without its leading and trailing white space. (Go's
  implementation has a fast path for ASCII bytes and falls back to the two functions
  above at the first byte that is not ASCII; the result is the same.)
\<close>

definition TrimSpace :: "string \<Rightarrow> string" where
  "TrimSpace s = TrimRightSpace (TrimLeftSpace s)"

text \<open>\<^verbatim>\<open>strings.HasPrefix\<close>.\<close>

definition HasPrefix :: "string \<Rightarrow> string \<Rightarrow> bool" where
  "HasPrefix s p = prefix p s"

text \<open>
  \<^verbatim>\<open>strings.Index(s, substr)\<close>: the index of the first instance of \<open>substr\<close> in \<open>s\<close>,
  or \<open>-1\<close> if there is none.
\<close>

fun Index :: "string \<Rightarrow> string \<Rightarrow> int" where
  "Index [] sep = (if sep = [] then 0 else - 1)"
| "Index (c # cs) sep =
     (if prefix sep (c # cs) then 0
      else (let r = Index cs sep in if r < 0 then - 1 else r + 1))"

text \<open>
  The slice expressions \<^verbatim>\<open>s[i:]\<close> and \<^verbatim>\<open>s[:i]\<close> panic when the index is out of range;
  the panic is the value \<open>None\<close>.
\<close>

definition slice_from :: "string \<Rightarrow> int \<Rightarrow> string option" where
  "slice_from s i = (if 0 \<le> i \<and> i \<le> int (length s) then Some (drop (nat i) s) else None)"

definition slice_to :: "string \<Rightarrow> int \<Rightarrow> string option" where
  "slice_to s i = (if 0 \<le> i \<and> i \<le> int (length s) then Some (take (nat i) s) else None)"

section \<open>Errors\<close>

text \<open>
  The \<^verbatim>\<open>error\<close> values the functions return: the two sentinel errors of \<^verbatim>\<open>io/fs\<close> the
  code depends on, any other failure of the operating system, a failure of the YAML
  library, and the timeout of the lock (with the path of the lock file).
\<close>

datatype error =
    ErrNotExist
  | ErrExist
  | ErrIO string
  | ErrYAML string
  | ErrLockTimeout string

section \<open>Frontmatter (frontmatter.go)\<close>

text \<open>
  The two places of \<^verbatim>\<open>ParseFrontmatter\<close> that drop one line break (\<^verbatim>\<open>\n\<close> or
  \<^verbatim>\<open>\r\n\<close>) from the front of a string are the same statement; it is written once.
\<close>

definition skip_newline :: "string \<Rightarrow> string option" where
  "skip_newline rest =
     (if length rest > 0 \<and> rest ! 0 = CHR ''\<newline>'' then slice_from rest 1
      else if length rest > 1 \<and> rest ! 0 = CHR 0x0D \<and> rest ! 1 = CHR ''\<newline>''
      then slice_from rest 2
      else Some rest)"

definition ParseFrontmatter :: "string \<Rightarrow> (string \<times> string) option" where
  "ParseFrontmatter content =
     (let trimmed = TrimSpace content in
      if \<not> HasPrefix trimmed ''---'' then Some ('''', content)
      else do {
        rest0 \<leftarrow> slice_from trimmed 3;
        rest \<leftarrow> skip_newline rest0;
        let closingIdx = Index rest ''\<newline>---'';
        if closingIdx < 0 then Some ('''', content)
        else do {
          yamlStr \<leftarrow> slice_to rest closingIdx;
          afterClose0 \<leftarrow> slice_from rest (closingIdx + 4);
          afterClose \<leftarrow> skip_newline afterClose0;
          Some (yamlStr, afterClose)
        }
      })"

text \<open>
  \<^verbatim>\<open>RenderFrontmatter\<close>; \<^verbatim>\<open>yaml.Marshal\<close> belongs to the library gopkg.in/yaml.v3 and is a
  parameter.
\<close>

definition RenderFrontmatter :: "('m \<Rightarrow> error + bytes) \<Rightarrow> 'm \<Rightarrow> string \<Rightarrow> error + string" where
  "RenderFrontmatter yaml_Marshal metadata body =
     (case yaml_Marshal metadata of
        Inl err \<Rightarrow> Inl err
      | Inr yamlBytes \<Rightarrow>
          Inr (''---\<newline>'' @ yamlBytes @ ''---\<newline>''
               @ (if body \<noteq> '''' then body else '''')))"

text \<open>
  The text yaml.v3 produces for a map of strings whose keys and values are plain scalars
  (one \<^verbatim>\<open>key: value\<close> line for each entry, \<^verbatim>\<open>{}\<close> for the empty map). It stands for
  \<^verbatim>\<open>yaml.Marshal\<close> where a concrete value is needed.
\<close>

definition yaml_Marshal_plain :: "(string \<times> string) list \<Rightarrow> error + bytes" where
  "yaml_Marshal_plain kvs =
     (if kvs = [] then Inr ''{}\<newline>''
      else Inr (concat (map (\<lambda>(k, v). k @ '': '' @ v @ ''\<newline>'') kvs)))"

text \<open>
  The spec's reading of a closing delimiter: a line after the first that consists of the
  three hyphens (a carriage return before the line break belongs to the line break).
\<close>

primrec split_lines :: "string \<Rightarrow> string list" where
  "split_lines [] = [[]]"
| "split_lines (c # cs) =
     (if c = CHR ''\<newline>'' then [] # split_lines cs
      else (case split_lines cs of [] \<Rightarrow> [[c]] | l # ls \<Rightarrow> (c # l) # ls))"

definition spec_delimiter_line :: "string \<Rightarrow> bool" where
  "spec_delimiter_line l \<longleftrightarrow> l = ''---'' \<or> l = ''---'' @ [CHR 0x0D]"

definition spec_has_closing_delimiter :: "string \<Rightarrow> bool" where
  "spec_has_closing_delimiter content = list_ex spec_delimiter_line (tl (split_lines content))"


section \<open>The operating system, as the code sees it\<close>

text \<open>
  A file system is the content of each file that exists. Directories are not part of the
  state: \<^verbatim>\<open>os.MkdirAll\<close> is represented by its outcome. Every call of the standard
  library fails when the environment says so, also the calls whose result the source
  discards; the environment is a parameter of every function that touches the file
  system.
\<close>

type_synonym path = string
type_synonym filesystem = "path \<Rightarrow> bytes option"

record os_env =
  mkdirall_err :: "path \<Rightarrow> error option"
  createtemp_err :: "error option"
  random_names :: "string list"
  write_err :: "(error \<times> nat) option"
  close_err :: "error option"
  remove_err :: "path \<Rightarrow> error option"
  rename_err :: "error option"
  readfile_err :: "path \<Rightarrow> error option"
  openfile_err :: "path \<Rightarrow> error option"
  flock_err :: "error option"

subsection \<open>Paths\<close>

text \<open>
  \<^verbatim>\<open>filepath.Clean\<close>: the elements of the path between separators, without the empty
  ones and the \<^verbatim>\<open>.\<close> ones, each inner \<^verbatim>\<open>..\<close> taken away together with the element
  before it, and each \<^verbatim>\<open>..\<close> at the root taken away; the empty result is \<^verbatim>\<open>.\<close>. The
  separator is a parameter: a slash on Unix; on Windows a backslash, where a slash is a
  separator of the input too. (Drive letters and UNC prefixes of Windows paths are not
  told apart from other elements.)
\<close>

primrec path_elements :: "(char \<Rightarrow> bool) \<Rightarrow> path \<Rightarrow> string list" where
  "path_elements issep [] = [[]]"
| "path_elements issep (c # cs) =
     (if issep c then [] # path_elements issep cs
      else (case path_elements issep cs of [] \<Rightarrow> [[c]] | e # es \<Rightarrow> (c # e) # es))"

fun clean_elements :: "bool \<Rightarrow> string list \<Rightarrow> string list \<Rightarrow> string list" where
  "clean_elements rooted acc [] = rev acc"
| "clean_elements rooted acc (e # es) =
     (if e = [] \<or> e = ''.'' then clean_elements rooted acc es
      else if e = ''..'' then
        (case acc of
           [] \<Rightarrow> if rooted then clean_elements rooted [] es
                 else clean_elements rooted [e] es
         | a # as \<Rightarrow> if a = ''..'' then clean_elements rooted (e # acc) es
                     else clean_elements rooted as es)
      else clean_elements rooted (e # acc) es)"

fun join_elements :: "char \<Rightarrow> string list \<Rightarrow> path" where
  "join_elements sep [] = []"
| "join_elements sep [e] = e"
| "join_elements sep (e # es) = e @ [sep] @ join_elements sep es"

definition Clean_with :: "char \<Rightarrow> (char \<Rightarrow> bool) \<Rightarrow> path \<Rightarrow> path" where
  "Clean_with sep issep p =
     (let rooted = (p \<noteq> [] \<and> issep (hd p));
          body = join_elements sep (clean_elements rooted [] (path_elements issep p))
      in if rooted then sep # body
         else if body = [] then ''.'' else body)"

definition is_slash :: "char \<Rightarrow> bool" where
  "is_slash c \<longleftrightarrow> c = CHR ''/''"


definition filepath_Clean :: "path \<Rightarrow> path" where
  "filepath_Clean p = Clean_with (CHR ''/'') is_slash p"

text \<open>
  \<^verbatim>\<open>filepath.Dir\<close>: the path up to its last separator, cleaned. \<^verbatim>\<open>filepath.Join\<close>: the
  elements that are not empty, with separators between them, cleaned; the empty path if
  there is none.
\<close>

definition filepath_Dir :: "path \<Rightarrow> path" where
  "filepath_Dir p = filepath_Clean (rev (dropWhile (\<lambda>c. \<not> is_slash c) (rev p)))"



subsection \<open>Files\<close>

text \<open>
  \<^verbatim>\<open>os.CreateTemp(dir, ".tmp-*")\<close> replaces the star by a random string, puts the
  directory before the name (with a separator, unless the directory ends with one) and
  creates the file exclusively; while the name exists it draws again, and gives up when
  its tries are used up. \<open>random_names\<close> are the strings it draws.
\<close>

definition os_joinPath :: "path \<Rightarrow> string \<Rightarrow> path" where
  "os_joinPath dir name =
     (if dir \<noteq> [] \<and> is_slash (last dir) then dir @ name else dir @ ''/'' @ name)"

definition temp_candidates :: "os_env \<Rightarrow> path \<Rightarrow> path list" where
  "temp_candidates env dir = map (\<lambda>r. os_joinPath dir (''.tmp-'' @ r)) (random_names env)"

definition os_CreateTemp :: "os_env \<Rightarrow> path \<Rightarrow> filesystem \<Rightarrow> error + (path \<times> filesystem)" where
  "os_CreateTemp env dir fs =
     (case createtemp_err env of
        Some err \<Rightarrow> Inl err
      | None \<Rightarrow>
          (case find (\<lambda>n. fs n = None) (temp_candidates env dir) of
             None \<Rightarrow> Inl ErrExist
           | Some name \<Rightarrow> Inr (name, fs(name \<mapsto> []))))"

text \<open>
  \<^verbatim>\<open>tmp.Write(data)\<close>: a failed write may have written a part of the data.
\<close>

definition file_Write :: "os_env \<Rightarrow> path \<Rightarrow> bytes \<Rightarrow> filesystem \<Rightarrow> error option \<times> filesystem" where
  "file_Write env name data fs =
     (case write_err env of
        Some (err, n) \<Rightarrow> (Some err, fs(name \<mapsto> take n data))
      | None \<Rightarrow> (None, fs(name \<mapsto> data)))"

text \<open>
  \<^verbatim>\<open>tmp.Close()\<close> of the temporary file: it changes no file, and fails when the
  environment says so.
\<close>

definition tmp_Close :: "os_env \<Rightarrow> error option" where
  "tmp_Close env = close_err env"

text \<open>
  \<^verbatim>\<open>os.Remove\<close>: the file is gone, unless the environment makes the call fail or there is
  no such file; then nothing changes.
\<close>

definition os_Remove :: "os_env \<Rightarrow> path \<Rightarrow> filesystem \<Rightarrow> error option \<times> filesystem" where
  "os_Remove env name fs =
     (case remove_err env name of
        Some err \<Rightarrow> (Some err, fs)
      | None \<Rightarrow>
          (case fs name of
             None \<Rightarrow> (Some ErrNotExist, fs)
           | Some _ \<Rightarrow> (None, fs(name := None))))"

definition os_Rename :: "os_env \<Rightarrow> path \<Rightarrow> path \<Rightarrow> filesystem \<Rightarrow> error option \<times> filesystem" where
  "os_Rename env oldpath newpath fs =
     (case rename_err env of
        Some err \<Rightarrow> (Some err, fs)
      | None \<Rightarrow>
          (case fs oldpath of
             None \<Rightarrow> (Some ErrNotExist, fs)
           | Some data \<Rightarrow> (None, (fs(oldpath := None))(newpath \<mapsto> data))))"

text \<open>
  \<^verbatim>\<open>os.ReadFile\<close>: it fails when the environment says so, whether the file exists or not
  (a path through a file that is not a directory, a directory that may not be searched);
  otherwise a file that does not exist gives \<^verbatim>\<open>fs.ErrNotExist\<close>.
\<close>

definition os_ReadFile :: "os_env \<Rightarrow> path \<Rightarrow> filesystem \<Rightarrow> error + bytes" where
  "os_ReadFile env name fs =
     (case readfile_err env name of
        Some err \<Rightarrow> Inl err
      | None \<Rightarrow> (case fs name of None \<Rightarrow> Inl ErrNotExist | Some data \<Rightarrow> Inr data))"

section \<open>Atomic writes (atomic.go)\<close>

definition EnsureDir :: "os_env \<Rightarrow> path \<Rightarrow> error option" where
  "EnsureDir env p = mkdirall_err env p"

text \<open>
  After a failed write the source closes the temporary file and discards the result of
  the close; that call changes nothing in the model and is not written. The result of
  \<^verbatim>\<open>os.Remove\<close> is discarded: its state is kept, its error is not.
\<close>

definition AtomicWrite :: "os_env \<Rightarrow> path \<Rightarrow> bytes \<Rightarrow> filesystem \<Rightarrow> error option \<times> filesystem" where
  "AtomicWrite env p data fs =
     (let dir = filepath_Dir p in
      case EnsureDir env dir of
        Some err \<Rightarrow> (Some err, fs)
      | None \<Rightarrow>
          (case os_CreateTemp env dir fs of
             Inl err \<Rightarrow> (Some err, fs)
           | Inr (tmpName, fs1) \<Rightarrow>
               (case file_Write env tmpName data fs1 of
                  (Some err, fs2) \<Rightarrow> (Some err, snd (os_Remove env tmpName fs2))
                | (None, fs2) \<Rightarrow>
                    (case tmp_Close env of
                       Some err \<Rightarrow> (Some err, snd (os_Remove env tmpName fs2))
                     | None \<Rightarrow> os_Rename env tmpName p fs2))))"

section \<open>YAML documents\<close>

text \<open>
  \<^verbatim>\<open>yaml.Unmarshal\<close> and \<^verbatim>\<open>yaml.Marshal\<close> belong to gopkg.in/yaml.v3 and are parameters.
  \<^verbatim>\<open>ReadYAML\<close> fills the destination behind a pointer; the model returns the destination
  as it is after the call.
\<close>

definition ReadYAML ::
  "(bytes \<Rightarrow> 'd \<Rightarrow> error + 'd) \<Rightarrow> os_env \<Rightarrow> path \<Rightarrow> 'd \<Rightarrow> filesystem \<Rightarrow> error + 'd" where
  "ReadYAML yaml_Unmarshal env p dest fs =
     (case os_ReadFile env p fs of
        Inl err \<Rightarrow> (if err = ErrNotExist then Inr dest else Inl err)
      | Inr data \<Rightarrow> yaml_Unmarshal data dest)"

definition WriteYAML ::
  "('s \<Rightarrow> error + bytes) \<Rightarrow> os_env \<Rightarrow> path \<Rightarrow> 's \<Rightarrow> filesystem \<Rightarrow> error option \<times> filesystem" where
  "WriteYAML yaml_Marshal env p src fs =
     (case yaml_Marshal src of
        Inl err \<Rightarrow> (Some err, fs)
      | Inr data \<Rightarrow> AtomicWrite env p data fs)"

definition AppendYAML ::
  "(bytes \<Rightarrow> 't list \<Rightarrow> error + 't list) \<Rightarrow> ('t list \<Rightarrow> error + bytes) \<Rightarrow> os_env \<Rightarrow> path \<Rightarrow> 't
     \<Rightarrow> filesystem \<Rightarrow> error option \<times> filesystem" where
  "AppendYAML yaml_Unmarshal yaml_Marshal env p item fs =
     (case ReadYAML yaml_Unmarshal env p [] fs of
        Inl err \<Rightarrow> (Some err, fs)
      | Inr existing \<Rightarrow> WriteYAML yaml_Marshal env p (existing @ [item]) fs)"

text \<open>
  An environment in which no call that \<^verbatim>\<open>ReadYAML\<close> and \<^verbatim>\<open>AtomicWrite\<close> make for the
  path \<open>p\<close> fails.
\<close>

definition no_failure :: "os_env \<Rightarrow> path \<Rightarrow> bool" where
  "no_failure env p \<longleftrightarrow>
     mkdirall_err env (filepath_Dir p) = None \<and> createtemp_err env = None \<and>
     write_err env = None \<and> close_err env = None \<and> rename_err env = None \<and>
     readfile_err env p = None"

text \<open>
  The loop of \<^verbatim>\<open>TestAppendYAML_Multiple\<close>: one \<^verbatim>\<open>AppendYAML\<close> for each item, stopping at
  the first error.
\<close>

fun AppendYAML_each ::
  "(bytes \<Rightarrow> 't list \<Rightarrow> error + 't list) \<Rightarrow> ('t list \<Rightarrow> error + bytes) \<Rightarrow> os_env \<Rightarrow> path \<Rightarrow> 't list
     \<Rightarrow> filesystem \<Rightarrow> error option \<times> filesystem" where
  "AppendYAML_each um ma env p [] fs = (None, fs)"
| "AppendYAML_each um ma env p (item # items) fs =
     (case AppendYAML um ma env p item fs of
        (Some err, fs') \<Rightarrow> (Some err, fs')
      | (None, fs') \<Rightarrow> AppendYAML_each um ma env p items fs')"

text \<open>
  The documents yaml.v3 writes and reads for a sequence of booleans: one \<^verbatim>\<open>- true\<close> or
  \<^verbatim>\<open>- false\<close> line for each element, \<^verbatim>\<open>[]\<close> for the empty sequence; an empty document
  leaves the destination as it is. They stand for the library where a concrete codec
  is needed.
\<close>

definition yaml_bool_line :: "bool \<Rightarrow> string" where
  "yaml_bool_line b = (if b then ''- true'' else ''- false'')"

definition yaml_Marshal_bools :: "bool list \<Rightarrow> error + bytes" where
  "yaml_Marshal_bools xs =
     (if xs = [] then Inr ''[]\<newline>''
      else Inr (concat (map (\<lambda>b. yaml_bool_line b @ ''\<newline>'') xs)))"

definition yaml_parse_bool_line :: "string \<Rightarrow> bool option" where
  "yaml_parse_bool_line l =
     (if l = ''- true'' then Some True else if l = ''- false'' then Some False else None)"

definition yaml_Unmarshal_bools :: "bytes \<Rightarrow> bool list \<Rightarrow> error + bool list" where
  "yaml_Unmarshal_bools data dest =
     (if data = [] then Inr dest
      else if data = ''[]\<newline>'' then Inr []
      else if last (split_lines data) \<noteq> [] then Inl (ErrYAML ''yaml: unmarshal error'')
      else (case those (map yaml_parse_bool_line (butlast (split_lines data))) of
              None \<Rightarrow> Inl (ErrYAML ''yaml: unmarshal error'')
            | Some xs \<Rightarrow> Inr xs))"


section \<open>Locks\<close>













subsection \<open>lock\_unix.go\<close>


subsection \<open>The lock of the Windows build\<close>










subsection \<open>The critical section of the test\<close>





section \<open>Concrete environments\<close>

text \<open>
  An environment in which every call succeeds, one in which the disk is full, one in
  which nothing can be removed either, and one in which files of the directory \<^verbatim>\<open>data\<close>
  cannot be removed (as in a directory with the sticky bit, for the files of others).
\<close>

definition quiet_env :: os_env where
  "quiet_env =
     \<lparr>mkdirall_err = (\<lambda>_. None), createtemp_err = None,
      random_names = [''1234567'', ''7654321''],
      write_err = None, close_err = None, remove_err = (\<lambda>_. None), rename_err = None,
      readfile_err = (\<lambda>_. None), openfile_err = (\<lambda>_. None), flock_err = None\<rparr>"

definition disk_full_env :: os_env where
  "disk_full_env = quiet_env\<lparr>write_err := Some (ErrIO ''no space left on device'', 3)\<rparr>"

definition disk_full_sticky_env :: os_env where
  "disk_full_sticky_env =
     disk_full_env\<lparr>remove_err := (\<lambda>_. Some (ErrIO ''operation not permitted''))\<rparr>"



text \<open>An environment in which \<^verbatim>\<open>a.txt\<close> is a file, so that no path leads through it.\<close>

definition notdir_env :: os_env where
  "notdir_env =
     quiet_env\<lparr>readfile_err :=
       (\<lambda>p. if p = ''a.txt/foo.yaml'' then Some (ErrIO ''not a directory'') else None)\<rparr>"








section \<open>Facts about the string functions\<close>

lemma Index_ge: "- 1 \<le> Index s sep"
  by (induction s) (auto simp: Let_def)

lemma Index_neg_iff: "Index s sep < 0 \<longleftrightarrow> \<not> sublist sep s"
proof (induction s)
  case Nil
  then show ?case by simp
next
  case (Cons c cs)
  have "- 1 \<le> Index cs sep" by (rule Index_ge)
  with Cons show ?case
    by (auto simp: Let_def sublist_Cons_right)
qed

lemma Index_bound: "0 \<le> Index s sep \<Longrightarrow> Index s sep + int (length sep) \<le> int (length s)"
proof (induction s)
  case Nil
  then show ?case by (auto split: if_splits)
next
  case (Cons c cs)
  show ?case
  proof (cases "prefix sep (c # cs)")
    case True
    then show ?thesis using prefix_length_le[OF True] by simp
  next
    case False
    with Cons show ?thesis by (auto simp: Let_def split: if_splits)
  qed
qed

lemma Index_first:
  "(\<forall>i<length a. \<not> prefix sep (drop i (a @ sep @ t))) \<Longrightarrow> Index (a @ sep @ t) sep = int (length a)"
proof (induction a)
  case Nil
  have p: "prefix sep (sep @ t)" by simp
  show ?case
  proof (cases "sep @ t")
    case Nil
    then show ?thesis by simp
  next
    case (Cons x xs)
    with p show ?thesis by simp
  qed
next
  case (Cons c a)
  from Cons.prems have n0: "\<not> prefix sep ((c # a) @ sep @ t)" by force
  from Cons.prems have "\<forall>i<length a. \<not> prefix sep (drop i (a @ sep @ t))" by force
  then have "Index (a @ sep @ t) sep = int (length a)" by (rule Cons.IH)
  with n0 show ?case by (simp add: Let_def)
qed

lemma unicode_spaces_nonempty: "w \<in> set unicode_spaces \<Longrightarrow> w \<noteq> []"
  by (auto simp: unicode_spaces_def)

lemma trailing_space_SomeD:
  "trailing_space s = Some w \<Longrightarrow> w \<in> set unicode_spaces \<and> suffix w s"
  by (auto simp: trailing_space_def find_Some_iff)

lemma TrimRightSpace_prefix: "prefix (TrimRightSpace s) s"
proof (induction s rule: TrimRightSpace.induct)
  case (1 s)
  show ?case
  proof (cases "trailing_space s")
    case None
    then show ?thesis by (simp add: TrimRightSpace.simps)
  next
    case (Some w)
    with 1 have "prefix (TrimRightSpace (take (length s - length w) s)) (take (length s - length w) s)"
      by simp
    then have "prefix (TrimRightSpace (take (length s - length w) s)) s"
      using take_is_prefix prefix_order.trans by blast
    with Some show ?thesis by (simp add: TrimRightSpace.simps)
  qed
qed

lemma TrimLeftSpace_suffix: "suffix (TrimLeftSpace s) s"
proof (induction s rule: TrimLeftSpace.induct)
  case (1 s)
  show ?case
  proof (cases "leading_space s")
    case None
    then show ?thesis by (simp add: TrimLeftSpace.simps)
  next
    case (Some w)
    with 1 have "suffix (TrimLeftSpace (drop (length w) s)) (drop (length w) s)"
      by simp
    then have "suffix (TrimLeftSpace (drop (length w) s)) s"
      using suffix_drop suffix_order.trans by blast
    with Some show ?thesis by (simp add: TrimLeftSpace.simps)
  qed
qed

lemma TrimSpace_sublist: "sublist (TrimSpace s) s"
  unfolding TrimSpace_def
  using TrimRightSpace_prefix TrimLeftSpace_suffix
  by (meson prefix_imp_sublist suffix_imp_sublist sublist_order.order_trans)

lemma HasPrefix_TrimSpace:
  "HasPrefix (TrimSpace s) p \<Longrightarrow> HasPrefix (TrimLeftSpace s) p"
  unfolding HasPrefix_def TrimSpace_def
  using TrimRightSpace_prefix prefix_order.trans by blast

lemma leading_space_hyphen: "leading_space (CHR ''-'' # s) = None"
  by (simp add: leading_space_def unicode_spaces_def)

lemma TrimLeftSpace_hyphen: "TrimLeftSpace (CHR ''-'' # s) = CHR ''-'' # s"
  by (simp add: TrimLeftSpace.simps leading_space_hyphen)

text \<open>
  What the end of a string says about the space rune it ends with: a line feed is a rune
  of its own, a hyphen ends no space rune, and a line feed is not inside a longer one.
\<close>

lemma unicode_spaces_last_newline:
  "w \<in> set unicode_spaces \<Longrightarrow> last w = CHR ''\<newline>'' \<Longrightarrow> w = ''\<newline>''"
  by (auto simp: unicode_spaces_def)

lemma unicode_spaces_last_hyphen:
  "w \<in> set unicode_spaces \<Longrightarrow> last w \<noteq> CHR ''-''"
  by (auto simp: unicode_spaces_def)

lemma unicode_spaces_butlast_newline:
  "w \<in> set unicode_spaces \<Longrightarrow> CHR ''\<newline>'' \<notin> set (butlast w)"
  by (auto simp: unicode_spaces_def)

lemma newline_is_space: "''\<newline>'' \<in> set unicode_spaces"
  by (simp add: unicode_spaces_def)

lemma suffix_last: "suffix w s \<Longrightarrow> w \<noteq> [] \<Longrightarrow> last w = last s"
  by (auto simp: suffix_def)

lemma trailing_space_Nil: "trailing_space [] = None"
  by (auto simp: trailing_space_def find_None_iff dest: unicode_spaces_nonempty)

lemma TrimRightSpace_Nil: "TrimRightSpace [] = []"
  by (simp add: TrimRightSpace.simps trailing_space_Nil)

lemma trailing_space_hyphen: "trailing_space (q @ ''-'') = None"
proof -
  have "\<not> suffix w (q @ ''-'')" if "w \<in> set unicode_spaces" for w
  proof
    assume "suffix w (q @ ''-'')"
    with that have "last w = CHR ''-''"
      using suffix_last[of w "q @ ''-''"] unicode_spaces_nonempty by simp
    with that show False using unicode_spaces_last_hyphen by blast
  qed
  then show ?thesis by (auto simp: trailing_space_def find_None_iff)
qed

lemma TrimRightSpace_hyphen: "TrimRightSpace (q @ ''-'') = q @ ''-''"
  by (simp add: TrimRightSpace.simps trailing_space_hyphen)

lemma trailing_space_newline: "trailing_space (q @ ''\<newline>'') = Some ''\<newline>''"
proof (cases "trailing_space (q @ ''\<newline>'')")
  case None
  then have "\<not> suffix ''\<newline>'' (q @ ''\<newline>'')"
    using newline_is_space by (auto simp: trailing_space_def find_None_iff)
  then show ?thesis by simp
next
  case (Some w)
  then have m: "w \<in> set unicode_spaces" and s: "suffix w (q @ ''\<newline>'')"
    using trailing_space_SomeD by blast+
  then have "last w = CHR ''\<newline>''"
    using suffix_last[of w "q @ ''\<newline>''"] unicode_spaces_nonempty by simp
  with m have "w = ''\<newline>''" by (rule unicode_spaces_last_newline)
  with Some show ?thesis by simp
qed

lemma TrimRightSpace_newline: "TrimRightSpace (q @ ''\<newline>'') = TrimRightSpace q"
  by (simp add: TrimRightSpace.simps[of "q @ ''\<newline>''"] trailing_space_newline)

lemma suffix_space_after_newline:
  assumes "w \<in> set unicode_spaces" "b \<noteq> []"
  shows "suffix w (p @ ''\<newline>'' @ b) \<longleftrightarrow> suffix w b"
proof
  assume "suffix w (p @ ''\<newline>'' @ b)"
  then have "suffix w ((p @ ''\<newline>'') @ b)" by simp
  then consider "suffix w b" | xs where "w = xs @ b" "suffix xs (p @ ''\<newline>'')"
    unfolding suffix_append by blast
  then show "suffix w b"
  proof cases
    case 1
    then show ?thesis .
  next
    case 2
    show ?thesis
    proof (cases "xs = []")
      case True
      with 2 show ?thesis by simp
    next
      case False
      with 2 have "last xs = CHR ''\<newline>''"
        using suffix_last[of xs "p @ ''\<newline>''"] by simp
      with False have "CHR ''\<newline>'' \<in> set xs"
        using last_in_set by metis
      moreover from 2 assms have "butlast w = xs @ butlast b"
        by (simp add: butlast_append)
      ultimately have "CHR ''\<newline>'' \<in> set (butlast w)" by simp
      with assms show ?thesis using unicode_spaces_butlast_newline by blast
    qed
  qed
next
  assume "suffix w b"
  then show "suffix w (p @ ''\<newline>'' @ b)" by (simp add: suffix_appendI suffix_ConsI)
qed

lemma trailing_space_after_newline:
  "b \<noteq> [] \<Longrightarrow> trailing_space (p @ ''\<newline>'' @ b) = trailing_space b"
  unfolding trailing_space_def
  using suffix_space_after_newline[of _ b p]
  by (intro find_cong) simp_all

lemma TrimRightSpace_after_newline:
  "TrimRightSpace (p @ ''\<newline>'' @ b) =
     (if TrimRightSpace b = [] then TrimRightSpace (p @ ''\<newline>'')
      else p @ ''\<newline>'' @ TrimRightSpace b)"
proof (induction b rule: TrimRightSpace.induct)
  case (1 b)
  show ?case
  proof (cases "b = []")
    case True
    then show ?thesis by (simp add: TrimRightSpace_Nil)
  next
    case False
    note ts = trailing_space_after_newline[OF False, of p]
    show ?thesis
    proof (cases "trailing_space b")
      case None
      then have "TrimRightSpace b = b" by (simp add: TrimRightSpace.simps)
      moreover from None ts have "TrimRightSpace (p @ ''\<newline>'' @ b) = p @ ''\<newline>'' @ b"
        by (simp add: TrimRightSpace.simps)
      ultimately show ?thesis using False by simp
    next
      case (Some w)
      then have "suffix w b" using trailing_space_SomeD by blast
      then have len: "length w \<le> length b" by (rule suffix_length_le)
      define b' where "b' = take (length b - length w) b"
      have e1: "TrimRightSpace b = TrimRightSpace b'"
        using Some by (simp add: TrimRightSpace.simps[of b] b'_def)
      have "take (length (p @ ''\<newline>'' @ b) - length w) (p @ ''\<newline>'' @ b) = p @ ''\<newline>'' @ b'"
        using len by (simp add: b'_def Suc_diff_le)
      then have e2: "TrimRightSpace (p @ ''\<newline>'' @ b) = TrimRightSpace (p @ ''\<newline>'' @ b')"
        by (simp only: TrimRightSpace.simps[of "p @ ''\<newline>'' @ b"] ts Some option.case)
      from "1.IH"[OF Some] e1 e2 show ?thesis by (simp add: b'_def)
    qed
  qed
qed

section \<open>Frontmatter\<close>

lemma skip_newline_Some: "\<exists>r. skip_newline s = Some r \<and> suffix r s"
  by (auto simp: skip_newline_def slice_from_def suffix_drop Suc_le_eq)

lemma ParseFrontmatter_total: "\<exists>y b. ParseFrontmatter content = Some (y, b)"
proof -
  define trimmed where "trimmed = TrimSpace content"
  show ?thesis
  proof (cases "HasPrefix trimmed ''---''")
    case False
    then show ?thesis by (simp add: ParseFrontmatter_def trimmed_def)
  next
    case True
    then have "3 \<le> length trimmed"
      using prefix_length_le by (fastforce simp: HasPrefix_def)
    then have r0: "slice_from trimmed 3 = Some (drop 3 trimmed)"
      by (simp add: slice_from_def)
    obtain rest where r: "skip_newline (drop 3 trimmed) = Some rest"
      using skip_newline_Some by blast
    define idx where "idx = Index rest ''\<newline>---''"
    show ?thesis
    proof (cases "idx < 0")
      case True
      with \<open>HasPrefix trimmed ''---''\<close> r0 r show ?thesis
        by (simp add: ParseFrontmatter_def trimmed_def[symmetric] idx_def[symmetric])
    next
      case False
      then have "idx + 4 \<le> int (length rest)"
        using Index_bound[of rest "''\<newline>---''"]
        by (simp add: idx_def)
      with False have a: "slice_to rest idx = Some (take (nat idx) rest)"
        and b: "slice_from rest (idx + 4) = Some (drop (nat (idx + 4)) rest)"
        by (simp_all add: slice_to_def slice_from_def)
      obtain ac where c: "skip_newline (drop (nat (idx + 4)) rest) = Some ac"
        using skip_newline_Some by blast
      from False \<open>HasPrefix trimmed ''---''\<close> r0 r a b c show ?thesis
        by (simp add: ParseFrontmatter_def trimmed_def[symmetric] idx_def[symmetric])
    qed
  qed
qed

lemma Parse_without_closing:
  assumes "Index content ''\<newline>---'' < 0"
  shows "ParseFrontmatter content = Some ('''', content)"
proof -
  define trimmed where "trimmed = TrimSpace content"
  show ?thesis
  proof (cases "HasPrefix trimmed ''---''")
    case False
    then show ?thesis by (simp add: ParseFrontmatter_def trimmed_def)
  next
    case True
    then have "3 \<le> length trimmed"
      using prefix_length_le by (fastforce simp: HasPrefix_def)
    then have r0: "slice_from trimmed 3 = Some (drop 3 trimmed)"
      by (simp add: slice_from_def)
    obtain rest where r: "skip_newline (drop 3 trimmed) = Some rest"
      and s: "suffix rest (drop 3 trimmed)"
      using skip_newline_Some by blast
    have "sublist rest (drop 3 trimmed)" using s by (rule suffix_imp_sublist)
    moreover have "sublist (drop 3 trimmed) trimmed" by simp
    moreover have "sublist trimmed content" unfolding trimmed_def by (rule TrimSpace_sublist)
    ultimately have "sublist rest content"
      using sublist_order.order_trans by blast
    with assms have "\<not> sublist ''\<newline>---'' rest"
      using sublist_order.order_trans by (auto simp: Index_neg_iff)
    then have "Index rest ''\<newline>---'' < 0" by (simp add: Index_neg_iff)
    with True r0 r show ?thesis
      by (simp add: ParseFrontmatter_def trimmed_def[symmetric])
  qed
qed

lemma no_early_closing:
  assumes "\<not> sublist ''\<newline>---'' (y0 @ ''\<newline>'')" "i < length y0"
  shows "\<not> prefix ''\<newline>---'' (drop i (y0 @ ''\<newline>---'' @ t))"
proof
  define d where "d = drop i y0"
  assume "prefix ''\<newline>---'' (drop i (y0 @ ''\<newline>---'' @ t))"
  with assms(2) have p: "prefix ''\<newline>---'' (d @ ''\<newline>---'' @ t)" by (simp add: d_def)
  from assms(2) have dn: "d \<noteq> []" by (simp add: d_def)
  have sd: "sublist d (y0 @ ''\<newline>'')"
    unfolding d_def by (metis sublist_drop sublist_append_rightI sublist_order.order_trans)
  show False
  proof (cases "4 \<le> length d")
    case True
    from p consider "prefix ''\<newline>---'' d"
      | us where "''\<newline>---'' = d @ us"
      unfolding prefix_append by blast
    then have "prefix ''\<newline>---'' d"
    proof cases
      case 1
      then show ?thesis .
    next
      case 2
      then have "length ''\<newline>---'' = length d + length us"
        by (metis length_append)
      then have "4 = length d + length us" by simp
      with True have "length us = 0" by linarith
      then have "us = []" by simp
      with 2 show ?thesis by simp
    qed
    then have "sublist ''\<newline>---'' d" by (rule prefix_imp_sublist)
    with sd assms(1) show False using sublist_order.order_trans by blast
  next
    case False
    from p obtain zs where z: "d @ ''\<newline>---'' @ t = ''\<newline>---'' @ zs"
      by (auto simp: prefix_def)
    have a: "(d @ ''\<newline>---'' @ t) ! length d = CHR ''\<newline>''"
      by (simp add: nth_append)
    from dn have "length d \<noteq> 0" by simp
    with False have "length d = 1 \<or> length d = 2 \<or> length d = 3"
      by linarith
    then have c: "(''\<newline>---'' @ zs) ! length d = CHR ''-''"
      by auto
    from a have "(''\<newline>---'' @ zs) ! length d = CHR ''\<newline>''"
      unfolding z .
    with c show False by simp
  qed
qed

text \<open>
  Claim C5, as amended. Let the YAML text of the metadata end with a line break and have no
  line break followed by three hyphens. Then \<^verbatim>\<open>RenderFrontmatter\<close> succeeds, and
  \<^verbatim>\<open>ParseFrontmatter\<close> of the rendered document returns the YAML text without its last
  line break, and the body without its trailing white space: \<^verbatim>\<open>ParseFrontmatter\<close> trims
  the whole document before it splits it, so the body comes back unchanged only when it
  does not end with white space.
\<close>

theorem frontmatter_roundtrip_trimmed:
  assumes "yaml_Marshal M = Inr (y @ ''\<newline>'')"
    and "Index (y @ ''\<newline>'') ''\<newline>---'' < 0"
  shows "\<exists>doc. RenderFrontmatter yaml_Marshal M B = Inr doc \<and>
           ParseFrontmatter doc = Some (y, TrimRightSpace B)"
proof -
  define doc where "doc = ''---\<newline>'' @ (y @ ''\<newline>'') @ ''---\<newline>'' @ B"
  define t where "t = (if TrimRightSpace B = [] then [] else ''\<newline>'' @ TrimRightSpace B)"
  define rest where "rest = y @ ''\<newline>---'' @ t"
  have render: "RenderFrontmatter yaml_Marshal M B = Inr doc"
    using assms(1) by (simp add: RenderFrontmatter_def doc_def)
  have left: "TrimLeftSpace doc = doc"
    by (simp add: doc_def TrimLeftSpace_hyphen)
  have "doc = (''---\<newline>'' @ y @ ''\<newline>---'') @ ''\<newline>'' @ B"
    by (simp add: doc_def)
  then have "TrimRightSpace doc =
      (if TrimRightSpace B = [] then TrimRightSpace ((''---\<newline>'' @ y @ ''\<newline>---'') @ ''\<newline>'')
       else (''---\<newline>'' @ y @ ''\<newline>---'') @ ''\<newline>'' @ TrimRightSpace B)"
    by (simp only: TrimRightSpace_after_newline)
  moreover have "TrimRightSpace ((''---\<newline>'' @ y @ ''\<newline>---'') @ ''\<newline>'')
      = ''---\<newline>'' @ y @ ''\<newline>---''"
    using TrimRightSpace_hyphen[of "''---\<newline>'' @ y @ ''\<newline>--''"]
    by (simp only: TrimRightSpace_newline) simp
  ultimately have trimmed: "TrimSpace doc = ''---\<newline>'' @ rest"
    by (simp add: TrimSpace_def left rest_def t_def)
  have hp: "HasPrefix (''---\<newline>'' @ rest) ''---''"
    by (simp add: HasPrefix_def)
  have s0: "slice_from (''---\<newline>'' @ rest) 3 = Some (''\<newline>'' @ rest)"
    by (simp add: slice_from_def)
  have s1: "skip_newline (''\<newline>'' @ rest) = Some rest"
    by (simp add: skip_newline_def slice_from_def)
  have "\<not> sublist ''\<newline>---'' (y @ ''\<newline>'')"
    using assms(2) by (simp add: Index_neg_iff)
  then have "\<forall>i<length y. \<not> prefix ''\<newline>---'' (drop i (y @ ''\<newline>---'' @ t))"
    using no_early_closing by blast
  then have idx: "Index rest ''\<newline>---'' = int (length y)"
    unfolding rest_def by (rule Index_first)
  have s2: "slice_to rest (int (length y)) = Some y"
    by (simp add: slice_to_def rest_def)
  have s3: "slice_from rest (int (length y) + 4) = Some t"
    by (simp add: slice_from_def rest_def nat_add_distrib)
  have s4: "skip_newline t = Some (TrimRightSpace B)"
    by (simp add: t_def skip_newline_def slice_from_def)
  have "ParseFrontmatter doc = Some (y, TrimRightSpace B)"
    by (simp add: ParseFrontmatter_def trimmed hp[simplified] s0[simplified] s1[simplified]
        idx s2 s3 s4)
  with render show ?thesis by blast
qed

text \<open>The amended claim at the example of the README, whose body has no trailing space.\<close>

theorem frontmatter_roundtrip_trimmed_witness:
  "yaml_Marshal_plain [(''title'', ''Hello'')] = Inr (''title: Hello'' @ ''\<newline>'') \<and>
   Index (''title: Hello'' @ ''\<newline>'') ''\<newline>---'' < 0 \<and>
   (\<exists>doc. RenderFrontmatter yaml_Marshal_plain [(''title'', ''Hello'')] ''# Content'' = Inr doc \<and>
      ParseFrontmatter doc = Some (''title: Hello'', ''# Content''))"
proof -
  have h1: "yaml_Marshal_plain [(''title'', ''Hello'')] = Inr (''title: Hello'' @ ''\<newline>'')"
    by (simp add: yaml_Marshal_plain_def)
  have h2: "Index (''title: Hello'' @ ''\<newline>'') ''\<newline>---'' < 0"
    by code_simp
  have t: "TrimRightSpace ''# Content'' = ''# Content''"
    by code_simp
  from frontmatter_roundtrip_trimmed[where yaml_Marshal = yaml_Marshal_plain and M = "[(''title'', ''Hello'')]"
      and y = "''title: Hello''" and B = "''# Content''", OF h1 h2] h1 h2
  show ?thesis
    unfolding t by blast
qed

text \<open>
  Claim C5 as stated fails for the metadata and the body of \<^verbatim>\<open>TestRenderFrontmatter_Basic\<close>:
  the body \<^verbatim>\<open>"Body text\n"\<close> comes back as \<^verbatim>\<open>"Body text"\<close>.
\<close>

theorem frontmatter_roundtrip_body_counterexample:
  "RenderFrontmatter yaml_Marshal_plain [(''title'', ''Hello'')] ''Body text\<newline>''
     = Inr ''---\<newline>title: Hello\<newline>---\<newline>Body text\<newline>'' \<and>
   ParseFrontmatter ''---\<newline>title: Hello\<newline>---\<newline>Body text\<newline>''
     = Some (''title: Hello'', ''Body text'') \<and>
   ''Body text'' \<noteq> ''Body text\<newline>''"
  by code_simp

text \<open>
  Claim C6, as amended. When the input, with its leading white space skipped, does not
  begin with three hyphens, \<^verbatim>\<open>ParseFrontmatter\<close> returns an empty metadata text and the
  whole input, unmodified, as the body. (The opening delimiter is looked for in the
  trimmed input, not at the very start of the text.)
\<close>

theorem ParseFrontmatter_no_opening:
  "\<not> HasPrefix (TrimLeftSpace content) ''---'' \<Longrightarrow> ParseFrontmatter content = Some ('''', content)"
proof -
  assume "\<not> HasPrefix (TrimLeftSpace content) ''---''"
  then have "\<not> HasPrefix (TrimSpace content) ''---''"
    using HasPrefix_TrimSpace by blast
  then show ?thesis
    by (simp add: ParseFrontmatter_def)
qed

text \<open>The amended claim at the input of \<^verbatim>\<open>TestParseFrontmatter_WithoutFrontmatter\<close>.\<close>

theorem ParseFrontmatter_no_opening_witness:
  "\<not> HasPrefix (TrimLeftSpace ''Just regular markdown content.'') ''---'' \<and>
   ParseFrontmatter ''Just regular markdown content.''
     = Some ('''', ''Just regular markdown content.'')"
proof -
  have h: "\<not> HasPrefix (TrimLeftSpace ''Just regular markdown content.'') ''---''"
    by code_simp
  from ParseFrontmatter_no_opening[OF h] h show ?thesis by simp
qed

text \<open>
  Claim C6 as stated fails for a document whose opening delimiter comes after an empty
  line: its first characters are not the delimiter, and it is split all the same.
\<close>

theorem ParseFrontmatter_leading_space_counterexample:
  "\<not> HasPrefix ''\<newline>---\<newline>a: 1\<newline>---\<newline>body'' ''---'' \<and>
   ParseFrontmatter ''\<newline>---\<newline>a: 1\<newline>---\<newline>body'' = Some (''a: 1'', ''body'') \<and>
   ParseFrontmatter ''\<newline>---\<newline>a: 1\<newline>---\<newline>body''
     \<noteq> Some ('''', ''\<newline>---\<newline>a: 1\<newline>---\<newline>body'')"
  by code_simp

text \<open>
  Claim C7, as amended. \<^verbatim>\<open>ParseFrontmatter\<close> returns a pair for every input (no slice
  expression of it is out of range); and for an input that begins with three hyphens and
  in which no line break is followed by three hyphens, it returns an empty metadata text
  and the whole input as the body. (The closing delimiter the code looks for is a line
  that begins with three hyphens, not a line that consists of them.)
\<close>

theorem ParseFrontmatter_no_closing_total:
  "(\<exists>y b. ParseFrontmatter content = Some (y, b)) \<and>
   (HasPrefix content ''---'' \<longrightarrow> Index content ''\<newline>---'' < 0 \<longrightarrow>
      ParseFrontmatter content = Some ('''', content))"
  using ParseFrontmatter_total Parse_without_closing by blast

text \<open>The amended claim at the input of \<^verbatim>\<open>TestParseFrontmatter_NoClosingDelimiter\<close>.\<close>

theorem ParseFrontmatter_no_closing_total_witness:
  "HasPrefix ''---\<newline>title: Hello\<newline>no closing delimiter here'' ''---'' \<and>
   Index ''---\<newline>title: Hello\<newline>no closing delimiter here'' ''\<newline>---'' < 0 \<and>
   ParseFrontmatter ''---\<newline>title: Hello\<newline>no closing delimiter here''
     = Some ('''', ''---\<newline>title: Hello\<newline>no closing delimiter here'')"
proof -
  have h1: "HasPrefix ''---\<newline>title: Hello\<newline>no closing delimiter here'' ''---''"
    by (simp add: HasPrefix_def)
  have h2: "Index ''---\<newline>title: Hello\<newline>no closing delimiter here'' ''\<newline>---'' < 0"
    by code_simp
  from ParseFrontmatter_no_closing_total
         [of "''---\<newline>title: Hello\<newline>no closing delimiter here''"] h1 h2
  show ?thesis by blast
qed

text \<open>
  Claim C7 as stated fails for a document that begins with the delimiter and whose only
  other line with hyphens is \<^verbatim>\<open>---b\<close>: no line after the first consists of the three
  hyphens, and the document is split all the same.
\<close>

theorem ParseFrontmatter_closing_prefix_counterexample:
  "HasPrefix ''---\<newline>a: 1\<newline>---b'' ''---'' \<and>
   \<not> spec_has_closing_delimiter ''---\<newline>a: 1\<newline>---b'' \<and>
   ParseFrontmatter ''---\<newline>a: 1\<newline>---b'' = Some (''a: 1'', ''b'') \<and>
   ParseFrontmatter ''---\<newline>a: 1\<newline>---b'' \<noteq> Some ('''', ''---\<newline>a: 1\<newline>---b'')"
  by code_simp

section \<open>Atomic writes\<close>

lemma os_CreateTemp_fresh:
  "os_CreateTemp env dir fs = Inr (t, fs1) \<Longrightarrow> fs t = None \<and> fs1 = fs(t \<mapsto> [])"
  by (auto simp: os_CreateTemp_def find_Some_iff split: option.splits)

lemma os_Remove_cases:
  "snd (os_Remove env name fs) = (if remove_err env name = None then fs(name := None) else fs)"
  by (auto simp: os_Remove_def split: option.splits)

lemma AtomicWrite_ok:
  assumes "no_failure env p"
    and "\<exists>n\<in>set (temp_candidates env (filepath_Dir p)). fs n = None"
  shows "AtomicWrite env p data fs = (None, fs(p \<mapsto> data))"
proof -
  from assms(2) obtain t where t: "find (\<lambda>n. fs n = None) (temp_candidates env (filepath_Dir p)) = Some t"
    by (cases "find (\<lambda>n. fs n = None) (temp_candidates env (filepath_Dir p))")
       (auto simp: find_None_iff)
  then have fresh: "fs t = None" by (auto simp: find_Some_iff)
  then have "(fs(t := None))(p \<mapsto> data) = fs(p \<mapsto> data)" by (simp add: fun_upd_idem)
  with assms(1) t show ?thesis
    by (simp add: AtomicWrite_def no_failure_def EnsureDir_def os_CreateTemp_def file_Write_def
        tmp_Close_def os_Rename_def)
qed

text \<open>
  Claim C1, as amended. For every path and payload: when the directory is there and the
  temporary file \<open>tmpName\<close> was created, and then the write to it fails, or the write
  succeeds and the close fails, \<^verbatim>\<open>AtomicWrite\<close> returns that error after it has called
  \<^verbatim>\<open>os.Remove\<close> on the temporary file, whose result it discards. When the removal
  succeeds the temporary file does not exist afterwards and the file system is what it was
  before the call. Whether it succeeds or not, the target is as it was before the call
  (the same content, or no file), the target being another file than the temporary one;
  and a target that exists is another file than the temporary one.
\<close>

theorem AtomicWrite_failure_cleanup_attempted:
  assumes "EnsureDir env (filepath_Dir p) = None"
    and "os_CreateTemp env (filepath_Dir p) fs = Inr (tmpName, fs1)"
    and "fst (file_Write env tmpName data fs1) = Some e \<or>
         (fst (file_Write env tmpName data fs1) = None \<and> tmp_Close env = Some e)"
  shows "fst (AtomicWrite env p data fs) = Some e \<and>
         (remove_err env tmpName = None \<longrightarrow>
            snd (AtomicWrite env p data fs) tmpName = None \<and>
            snd (AtomicWrite env p data fs) = fs) \<and>
         (p \<noteq> tmpName \<longrightarrow> snd (AtomicWrite env p data fs) p = fs p) \<and>
         (fs p \<noteq> None \<longrightarrow> p \<noteq> tmpName)"
proof -
  from assms(2) have fresh: "fs tmpName = None" and fs1: "fs1 = fs(tmpName \<mapsto> [])"
    using os_CreateTemp_fresh by blast+
  obtain r fs2 where w: "file_Write env tmpName data fs1 = (r, fs2)"
    by (cases "file_Write env tmpName data fs1")
  then obtain d where fs2: "fs2 = fs(tmpName \<mapsto> d)"
    by (auto simp: file_Write_def fs1 split: option.splits)
  from assms(3) w have aw: "AtomicWrite env p data fs = (Some e, snd (os_Remove env tmpName fs2))"
    using assms(1,2) by (auto simp: AtomicWrite_def)
  have ok: "snd (os_Remove env tmpName fs2) = fs" if "remove_err env tmpName = None"
    using that fresh by (auto simp: os_Remove_cases fs2)
  have other: "snd (os_Remove env tmpName fs2) p = fs p" if "p \<noteq> tmpName"
    using that by (simp add: os_Remove_cases fs2)
  from aw ok other fresh show ?thesis by auto
qed

text \<open>
  The amended claim on a full disk where files can be removed, for the target of the
  README: the temporary file is gone and the old content of the target is still there.
\<close>

theorem AtomicWrite_failure_cleanup_attempted_witness:
  "EnsureDir disk_full_env (filepath_Dir ''data/notes/hello.md'') = None \<and>
   os_CreateTemp disk_full_env (filepath_Dir ''data/notes/hello.md'')
       [''data/notes/hello.md'' \<mapsto> ''old'']
     = Inr (''data/notes/.tmp-1234567'',
            [''data/notes/hello.md'' \<mapsto> ''old'', ''data/notes/.tmp-1234567'' \<mapsto> []]) \<and>
   file_Write disk_full_env ''data/notes/.tmp-1234567'' ''# Hello''
       [''data/notes/hello.md'' \<mapsto> ''old'', ''data/notes/.tmp-1234567'' \<mapsto> []]
     = (Some (ErrIO ''no space left on device''),
        [''data/notes/hello.md'' \<mapsto> ''old'', ''data/notes/.tmp-1234567'' \<mapsto> ''# H'']) \<and>
   remove_err disk_full_env ''data/notes/.tmp-1234567'' = None \<and>
   fst (AtomicWrite disk_full_env ''data/notes/hello.md'' ''# Hello''
          [''data/notes/hello.md'' \<mapsto> ''old'']) = Some (ErrIO ''no space left on device'') \<and>
   snd (AtomicWrite disk_full_env ''data/notes/hello.md'' ''# Hello''
          [''data/notes/hello.md'' \<mapsto> ''old'']) ''data/notes/.tmp-1234567'' = None \<and>
   snd (AtomicWrite disk_full_env ''data/notes/hello.md'' ''# Hello''
          [''data/notes/hello.md'' \<mapsto> ''old'']) ''data/notes/hello.md'' = Some ''old''"
proof -
  have d: "filepath_Dir ''data/notes/hello.md'' = ''data/notes''"
    by code_simp
  have h1: "EnsureDir disk_full_env (filepath_Dir ''data/notes/hello.md'') = None"
    by (simp add: EnsureDir_def disk_full_env_def quiet_env_def)
  have h2: "os_CreateTemp disk_full_env (filepath_Dir ''data/notes/hello.md'')
       [''data/notes/hello.md'' \<mapsto> ''old'']
     = Inr (''data/notes/.tmp-1234567'',
            [''data/notes/hello.md'' \<mapsto> ''old'', ''data/notes/.tmp-1234567'' \<mapsto> []])"
    by (simp add: d os_CreateTemp_def temp_candidates_def os_joinPath_def is_slash_def
        disk_full_env_def quiet_env_def)
  have w: "file_Write disk_full_env ''data/notes/.tmp-1234567'' ''# Hello''
       [''data/notes/hello.md'' \<mapsto> ''old'', ''data/notes/.tmp-1234567'' \<mapsto> []]
     = (Some (ErrIO ''no space left on device''),
        [''data/notes/hello.md'' \<mapsto> ''old'', ''data/notes/.tmp-1234567'' \<mapsto> ''# H''])"
    by (simp add: file_Write_def disk_full_env_def quiet_env_def)
  then have h3: "fst (file_Write disk_full_env ''data/notes/.tmp-1234567'' ''# Hello''
       [''data/notes/hello.md'' \<mapsto> ''old'', ''data/notes/.tmp-1234567'' \<mapsto> []])
         = Some (ErrIO ''no space left on device'') \<or>
      (fst (file_Write disk_full_env ''data/notes/.tmp-1234567'' ''# Hello''
       [''data/notes/hello.md'' \<mapsto> ''old'', ''data/notes/.tmp-1234567'' \<mapsto> []]) = None \<and>
       tmp_Close disk_full_env = Some (ErrIO ''no space left on device''))"
    by simp
  have r: "remove_err disk_full_env ''data/notes/.tmp-1234567'' = None"
    by (simp add: disk_full_env_def quiet_env_def)
  have ne: "''data/notes/hello.md'' \<noteq> ''data/notes/.tmp-1234567''" by simp
  from AtomicWrite_failure_cleanup_attempted[OF h1 h2 h3] r ne
  have "fst (AtomicWrite disk_full_env ''data/notes/hello.md'' ''# Hello''
          [''data/notes/hello.md'' \<mapsto> ''old'']) = Some (ErrIO ''no space left on device'')"
    and "snd (AtomicWrite disk_full_env ''data/notes/hello.md'' ''# Hello''
          [''data/notes/hello.md'' \<mapsto> ''old'']) ''data/notes/.tmp-1234567'' = None"
    and "snd (AtomicWrite disk_full_env ''data/notes/hello.md'' ''# Hello''
          [''data/notes/hello.md'' \<mapsto> ''old'']) ''data/notes/hello.md''
        = [''data/notes/hello.md'' \<mapsto> ''old''] ''data/notes/hello.md''"
    by blast+
  with h1 h2 w r show ?thesis by simp
qed

text \<open>
  Claim C1 as stated fails on a full disk on which the temporary file cannot be removed:
  the write fails after three bytes, \<^verbatim>\<open>AtomicWrite\<close> returns the error of the write, and
  the temporary file is still there, with the three bytes in it.
\<close>

theorem AtomicWrite_temp_file_left_counterexample:
  "EnsureDir disk_full_sticky_env (filepath_Dir ''data/notes/hello.md'') = None \<and>
   fst (file_Write disk_full_sticky_env ''data/notes/.tmp-1234567'' ''# Hello''
          [''data/notes/hello.md'' \<mapsto> ''old'', ''data/notes/.tmp-1234567'' \<mapsto> []])
     = Some (ErrIO ''no space left on device'') \<and>
   fst (AtomicWrite disk_full_sticky_env ''data/notes/hello.md'' ''# Hello''
          [''data/notes/hello.md'' \<mapsto> ''old'']) = Some (ErrIO ''no space left on device'') \<and>
   snd (AtomicWrite disk_full_sticky_env ''data/notes/hello.md'' ''# Hello''
          [''data/notes/hello.md'' \<mapsto> ''old'']) ''data/notes/.tmp-1234567'' = Some ''# H''"
  by code_simp

section \<open>YAML documents\<close>

lemma ReadYAML_absent:
  "readfile_err env p = None \<Longrightarrow> fs p = None \<Longrightarrow> ReadYAML um env p dest fs = Inr dest"
  by (simp add: ReadYAML_def os_ReadFile_def)

lemma ReadYAML_written:
  "readfile_err env p = None \<Longrightarrow> ReadYAML um env p dest (fs(p \<mapsto> d)) = um d dest"
  by (simp add: ReadYAML_def os_ReadFile_def)

lemma AppendYAML_ok:
  assumes rt: "\<forall>xs. \<exists>d. ma xs = Inr d \<and> um d [] = Inr xs"
    and ok: "no_failure env p"
    and tmp: "\<exists>n\<in>set (temp_candidates env (filepath_Dir p)). fs n = None \<and> n \<noteq> p"
    and init: "ReadYAML um env p [] fs = Inr xs0"
  shows "\<exists>d. ma (xs0 @ [item]) = Inr d \<and> um d [] = Inr (xs0 @ [item]) \<and>
             AppendYAML um ma env p item fs = (None, fs(p \<mapsto> d))"
proof -
  from rt obtain d where d: "ma (xs0 @ [item]) = Inr d" "um d [] = Inr (xs0 @ [item])"
    by blast
  from tmp have "\<exists>n\<in>set (temp_candidates env (filepath_Dir p)). fs n = None" by blast
  with ok have "AtomicWrite env p d fs = (None, fs(p \<mapsto> d))" by (rule AtomicWrite_ok)
  with d init show ?thesis
    by (simp add: AppendYAML_def WriteYAML_def)
qed

lemma AppendYAML_each_ok:
  assumes rt: "\<forall>xs. \<exists>d. ma xs = Inr d \<and> um d [] = Inr xs"
    and ok: "no_failure env p"
  shows "(\<exists>n\<in>set (temp_candidates env (filepath_Dir p)). fs n = None \<and> n \<noteq> p) \<Longrightarrow>
         ReadYAML um env p [] fs = Inr xs0 \<Longrightarrow>
         \<exists>fs'. AppendYAML_each um ma env p items fs = (None, fs') \<and>
               ReadYAML um env p [] fs' = Inr (xs0 @ items)"
proof (induction items arbitrary: fs xs0)
  case Nil
  then show ?case by simp
next
  case (Cons item items)
  from AppendYAML_ok[OF rt ok Cons.prems(1) Cons.prems(2), of item]
  obtain d where d: "um d [] = Inr (xs0 @ [item])"
    "AppendYAML um ma env p item fs = (None, fs(p \<mapsto> d))"
    by blast
  from ok have "readfile_err env p = None" by (simp add: no_failure_def)
  with d(1) have r: "ReadYAML um env p [] (fs(p \<mapsto> d)) = Inr (xs0 @ [item])"
    by (simp add: ReadYAML_written)
  from Cons.prems(1) have t: "\<exists>n\<in>set (temp_candidates env (filepath_Dir p)). (fs(p \<mapsto> d)) n = None \<and> n \<noteq> p"
    by auto
  from Cons.IH[OF t r] obtain fs' where
    f: "AppendYAML_each um ma env p items (fs(p \<mapsto> d)) = (None, fs')"
       "ReadYAML um env p [] fs' = Inr ((xs0 @ [item]) @ items)"
    by blast
  from d(2) f(1) have "AppendYAML_each um ma env p (item # items) fs = (None, fs')"
    by simp
  with f(2) show ?case by simp
qed

text \<open>The codec for sequences of booleans reads back what it writes.\<close>

lemma split_lines_line:
  "CHR ''\<newline>'' \<notin> set l \<Longrightarrow> split_lines (l @ CHR ''\<newline>'' # rest) = l # split_lines rest"
  by (induction l) (auto split: list.splits)

lemma split_lines_bools:
  "split_lines (concat (map (\<lambda>b. yaml_bool_line b @ ''\<newline>'') xs)) = map yaml_bool_line xs @ [[]]"
proof (induction xs)
  case Nil
  then show ?case by simp
next
  case (Cons b xs)
  have "CHR ''\<newline>'' \<notin> set (yaml_bool_line b)"
    by (simp add: yaml_bool_line_def)
  then show ?case
    using Cons by (simp add: split_lines_line)
qed

lemma parse_bool_lines: "those (map (yaml_parse_bool_line \<circ> yaml_bool_line) xs) = Some xs"
  by (induction xs) (auto simp: yaml_parse_bool_line_def yaml_bool_line_def)

lemma yaml_bools_roundtrip:
  "\<forall>xs. \<exists>d. yaml_Marshal_bools xs = Inr d \<and> yaml_Unmarshal_bools d [] = Inr xs"
proof
  fix xs :: "bool list"
  show "\<exists>d. yaml_Marshal_bools xs = Inr d \<and> yaml_Unmarshal_bools d [] = Inr xs"
  proof (cases xs)
    case Nil
    then show ?thesis by (simp add: yaml_Marshal_bools_def yaml_Unmarshal_bools_def)
  next
    case (Cons b bs)
    define d where "d = concat (map (\<lambda>b. yaml_bool_line b @ ''\<newline>'') xs)"
    have sl: "split_lines d = map yaml_bool_line xs @ [[]]"
      unfolding d_def by (rule split_lines_bools)
    have hd: "hd d = CHR ''-''" and ne: "d \<noteq> []"
      using Cons by (auto simp: d_def yaml_bool_line_def)
    then have "d \<noteq> ''[]\<newline>''" by auto
    with ne sl have "yaml_Unmarshal_bools d [] = Inr xs"
      by (simp add: yaml_Unmarshal_bools_def parse_bool_lines)
    moreover have "yaml_Marshal_bools xs = Inr d"
      using Cons by (simp add: yaml_Marshal_bools_def d_def)
    ultimately show ?thesis by blast
  qed
qed

text \<open>
  Claim C3. Let the YAML library read back every sequence it writes, let no call of the
  operating system fail, let a name for the temporary file be free, and let \<open>xs0\<close> be
  the sequence \<^verbatim>\<open>ReadYAML\<close> finds at the path (the empty one when the file is missing).
  Then one \<^verbatim>\<open>AppendYAML\<close> is the \<^verbatim>\<open>WriteYAML\<close> of \<open>xs0\<close> with the new record at its end,
  and after five \<^verbatim>\<open>AppendYAML\<close> calls in a row \<^verbatim>\<open>ReadYAML\<close> yields \<open>xs0\<close> followed by
  the five records, in the order of the calls, unchanged.
\<close>

theorem AppendYAML_appends_in_order:
  assumes "\<forall>xs. \<exists>d. ma xs = Inr d \<and> um d [] = Inr xs"
    and "no_failure env p"
    and "\<exists>n\<in>set (temp_candidates env (filepath_Dir p)). fs n = None \<and> n \<noteq> p"
    and "ReadYAML um env p [] fs = Inr xs0"
  shows "(fs p = None \<longrightarrow> xs0 = []) \<and>
         AppendYAML um ma env p item fs = WriteYAML ma env p (xs0 @ [item]) fs \<and>
         (\<exists>fs'. AppendYAML_each um ma env p [x1, x2, x3, x4, x5] fs = (None, fs') \<and>
                ReadYAML um env p [] fs' = Inr (xs0 @ [x1, x2, x3, x4, x5]))"
proof -
  from assms(2) have "readfile_err env p = None" by (simp add: no_failure_def)
  then have a: "fs p = None \<longrightarrow> xs0 = []"
    using assms(4) by (auto simp: ReadYAML_absent)
  have b: "AppendYAML um ma env p item fs = WriteYAML ma env p (xs0 @ [item]) fs"
    using assms(4) by (simp add: AppendYAML_def)
  from a b AppendYAML_each_ok[OF assms] show ?thesis by blast
qed

text \<open>
  Claim C3 for five records appended to a file that does not exist, as in
  \<^verbatim>\<open>TestAppendYAML_Multiple\<close>: exactly the five records are read back.
\<close>

theorem AppendYAML_appends_in_order_witness:
  "(\<forall>xs. \<exists>d. yaml_Marshal_bools xs = Inr d \<and> yaml_Unmarshal_bools d [] = Inr xs) \<and>
   no_failure quiet_env ''items.yaml'' \<and>
   (\<exists>n\<in>set (temp_candidates quiet_env (filepath_Dir ''items.yaml'')).
       Map.empty n = (None :: bytes option) \<and> n \<noteq> ''items.yaml'') \<and>
   ReadYAML yaml_Unmarshal_bools quiet_env ''items.yaml'' [] Map.empty = Inr [] \<and>
   (\<exists>fs'. AppendYAML_each yaml_Unmarshal_bools yaml_Marshal_bools quiet_env ''items.yaml''
             [True, False, False, True, True] Map.empty = (None, fs') \<and>
          ReadYAML yaml_Unmarshal_bools quiet_env ''items.yaml'' [] fs'
            = Inr [True, False, False, True, True])"
proof -
  have h1: "\<forall>xs. \<exists>d. yaml_Marshal_bools xs = Inr d \<and> yaml_Unmarshal_bools d [] = Inr xs"
    by (rule yaml_bools_roundtrip)
  have h2: "no_failure quiet_env ''items.yaml''"
    by (simp add: no_failure_def quiet_env_def)
  have tc: "temp_candidates quiet_env (filepath_Dir ''items.yaml'')
      = [''./.tmp-1234567'', ''./.tmp-7654321'']"
    by code_simp
  have h3: "\<exists>n\<in>set (temp_candidates quiet_env (filepath_Dir ''items.yaml'')).
       Map.empty n = (None :: bytes option) \<and> n \<noteq> ''items.yaml''"
    by (simp add: tc)
  have h4: "ReadYAML yaml_Unmarshal_bools quiet_env ''items.yaml'' [] Map.empty = Inr []"
    by (simp add: ReadYAML_def os_ReadFile_def quiet_env_def)
  from AppendYAML_appends_in_order[OF h1 h2 h3 h4, of True True False False True True]
  have "\<exists>fs'. AppendYAML_each yaml_Unmarshal_bools yaml_Marshal_bools quiet_env ''items.yaml''
             [True, False, False, True, True] Map.empty = (None, fs') \<and>
          ReadYAML yaml_Unmarshal_bools quiet_env ''items.yaml'' [] fs'
            = Inr ([] @ [True, False, False, True, True])"
    by blast
  then have "\<exists>fs'. AppendYAML_each yaml_Unmarshal_bools yaml_Marshal_bools quiet_env ''items.yaml''
             [True, False, False, True, True] Map.empty = (None, fs') \<and>
          ReadYAML yaml_Unmarshal_bools quiet_env ''items.yaml'' [] fs'
            = Inr [True, False, False, True, True]"
    by (simp only: append_Nil)
  with h1 h2 h3 h4 show ?thesis by blast
qed

text \<open>
  Claim C4, as amended. For every path at which there is no file and \<^verbatim>\<open>os.ReadFile\<close>
  has no other failure, and more generally whenever \<^verbatim>\<open>os.ReadFile\<close> reports
  \<^verbatim>\<open>fs.ErrNotExist\<close>, and for every destination, \<^verbatim>\<open>ReadYAML\<close> returns no error and
  the destination is what it was before the call: a destination that was empty is empty
  still.
\<close>

theorem ReadYAML_not_exist:
  "(fs p = None \<and> readfile_err env p = None \<longrightarrow> ReadYAML um env p dest fs = Inr dest) \<and>
   (os_ReadFile env p fs = Inl ErrNotExist \<longrightarrow> ReadYAML um env p dest fs = Inr dest)"
  by (simp add: ReadYAML_def os_ReadFile_def)

text \<open>
  The amended claim for the path and the empty destination of
  \<^verbatim>\<open>TestReadYAML_MissingFile\<close>.
\<close>

theorem ReadYAML_not_exist_witness:
  "(Map.empty :: filesystem) ''nonexistent.yaml'' = None \<and>
   readfile_err quiet_env ''nonexistent.yaml'' = None \<and>
   os_ReadFile quiet_env ''nonexistent.yaml'' Map.empty = Inl ErrNotExist \<and>
   ReadYAML yaml_Unmarshal_bools quiet_env ''nonexistent.yaml'' [] Map.empty = Inr []"
proof -
  have h1: "(Map.empty :: filesystem) ''nonexistent.yaml'' = None" by simp
  have h2: "readfile_err quiet_env ''nonexistent.yaml'' = None" by (simp add: quiet_env_def)
  have h3: "os_ReadFile quiet_env ''nonexistent.yaml'' Map.empty = Inl ErrNotExist"
    by (simp add: os_ReadFile_def quiet_env_def)
  from ReadYAML_not_exist[of Map.empty "''nonexistent.yaml''" quiet_env yaml_Unmarshal_bools "[]"] h3
  have "ReadYAML yaml_Unmarshal_bools quiet_env ''nonexistent.yaml'' [] Map.empty = Inr []"
    by blast
  with h1 h2 h3 show ?thesis by blast
qed

text \<open>
  Claim C4 as stated fails twice. The path \<^verbatim>\<open>a.txt/foo.yaml\<close> does not exist when
  \<^verbatim>\<open>a.txt\<close> is a file, \<^verbatim>\<open>os.ReadFile\<close> fails there with an error that is not
  \<^verbatim>\<open>fs.ErrNotExist\<close>, and \<^verbatim>\<open>ReadYAML\<close> returns that error. And a destination that
  holds a record before the call holds it after the call: it is not in its empty state.
\<close>

theorem ReadYAML_missing_file_counterexample:
  "[''a.txt'' \<mapsto> ''x''] ''a.txt/foo.yaml'' = None \<and>
   ReadYAML yaml_Unmarshal_bools notdir_env ''a.txt/foo.yaml'' [] [''a.txt'' \<mapsto> ''x'']
     = Inl (ErrIO ''not a directory'') \<and>
   (Map.empty :: filesystem) ''nonexistent.yaml'' = None \<and>
   ReadYAML yaml_Unmarshal_bools quiet_env ''nonexistent.yaml'' [True] Map.empty = Inr [True] \<and>
   [True] \<noteq> []"
  by (simp add: ReadYAML_def os_ReadFile_def notdir_env_def quiet_env_def)

text \<open>
  Claim C10. When the target exists and reading it fails (with an error other than
  non-existence) or its content is not YAML the library can decode, \<^verbatim>\<open>AppendYAML\<close>
  returns that error and the file system is what it was: nothing was written, not even
  a temporary file.
\<close>

theorem AppendYAML_read_failure:
  assumes "fs p = Some d"
    and "(readfile_err env p = Some e \<and> e \<noteq> ErrNotExist) \<or>
         (readfile_err env p = None \<and> um d [] = Inl e)"
  shows "AppendYAML um ma env p item fs = (Some e, fs)"
  using assms by (auto simp: AppendYAML_def ReadYAML_def os_ReadFile_def)

text \<open>Claim C10 for the malformed document of \<^verbatim>\<open>TestReadYAML_Malformed\<close>.\<close>

theorem AppendYAML_read_failure_witness:
  "[''bad.yaml'' \<mapsto> '':::not valid yaml[[[''] ''bad.yaml'' = Some '':::not valid yaml[[['' \<and>
   readfile_err quiet_env ''bad.yaml'' = None \<and>
   yaml_Unmarshal_bools '':::not valid yaml[[['' [] = Inl (ErrYAML ''yaml: unmarshal error'') \<and>
   AppendYAML yaml_Unmarshal_bools yaml_Marshal_bools quiet_env ''bad.yaml'' True
       [''bad.yaml'' \<mapsto> '':::not valid yaml[[['']
     = (Some (ErrYAML ''yaml: unmarshal error''), [''bad.yaml'' \<mapsto> '':::not valid yaml[[['']) "
proof -
  have h1: "[''bad.yaml'' \<mapsto> '':::not valid yaml[[[''] ''bad.yaml'' = Some '':::not valid yaml[[[''"
    by simp
  have r: "readfile_err quiet_env ''bad.yaml'' = None"
    by (simp add: quiet_env_def)
  have u: "yaml_Unmarshal_bools '':::not valid yaml[[['' [] = Inl (ErrYAML ''yaml: unmarshal error'')"
    by (simp add: yaml_Unmarshal_bools_def)
  from r u have h2: "(readfile_err quiet_env ''bad.yaml'' = Some (ErrYAML ''yaml: unmarshal error'')
        \<and> ErrYAML ''yaml: unmarshal error'' \<noteq> ErrNotExist) \<or>
      (readfile_err quiet_env ''bad.yaml'' = None \<and>
       yaml_Unmarshal_bools '':::not valid yaml[[['' [] = Inl (ErrYAML ''yaml: unmarshal error''))"
    by simp
  from AppendYAML_read_failure[where fs = "[''bad.yaml'' \<mapsto> '':::not valid yaml[[['']" and p = "''bad.yaml''"
      and d = "'':::not valid yaml[[[''" and env = quiet_env
      and e = "ErrYAML ''yaml: unmarshal error''" and um = yaml_Unmarshal_bools
      and ma = yaml_Marshal_bools and item = True, OF h1 h2] h1 r u
  show ?thesis by simp
qed

section \<open>Locks\<close>

subsection \<open>Descriptors and advisory locks\<close>












subsection \<open>The lock file and the clock\<close>












subsection \<open>The four ways through one iteration of the loop\<close>










subsection \<open>Mutual exclusion\<close>




subsection \<open>Result and release\<close>




subsection \<open>Stale locks\<close>




end
